theory Spec2Isabelle
  imports Complex_Main
begin

section \<open>Python values held by task metadata\<close>

text \<open>
  \<^verbatim>\<open>commonMetrics.py\<close> reads values out of task metadata. Its docstrings type them as
  \<^verbatim>\<open>float\<close> or \<^verbatim>\<open>None\<close> (timings) and \<^verbatim>\<open>int\<close> or \<^verbatim>\<open>None\<close> (memory); its tests also
  store \<^verbatim>\<open>str\<close> values. These four kinds are the values of the model.

  A finite float is kept as the rational number it denotes, next to the three special
  floats. Arithmetic on finite floats is exact in the model: the rounding of binary
  floating point to 53 bits is not represented.
\<close>

datatype pyfloat = Finite rat | PInf | NInf | NaN

datatype pynum = PyInt int | PyFloat pyfloat

datatype pyval = PyNone | PyNum pynum | PyStr string

text \<open>The exceptions that the code raises, catches or lets through.\<close>

datatype pyerror =
    TypeError
  | ValueError
  | OverflowError
  | KeyError string
  | MetricComputationError string

subsection \<open>The operator \<^verbatim>\<open>-\<close>\<close>

fun float_sub :: "pyfloat \<Rightarrow> pyfloat \<Rightarrow> pyfloat" where
  "float_sub NaN y = NaN"
| "float_sub x NaN = NaN"
| "float_sub PInf PInf = NaN"
| "float_sub PInf y = PInf"
| "float_sub NInf NInf = NaN"
| "float_sub NInf y = NInf"
| "float_sub (Finite a) PInf = NInf"
| "float_sub (Finite a) NInf = PInf"
| "float_sub (Finite a) (Finite b) = Finite (a - b)"

text \<open>An \<^verbatim>\<open>int\<close> operand next to a \<^verbatim>\<open>float\<close> one is converted to \<^verbatim>\<open>float\<close> first.\<close>

fun num_sub :: "pynum \<Rightarrow> pynum \<Rightarrow> pynum" where
  "num_sub (PyInt a) (PyInt b) = PyInt (a - b)"
| "num_sub (PyInt a) (PyFloat y) = PyFloat (float_sub (Finite (of_int a)) y)"
| "num_sub (PyFloat x) (PyInt b) = PyFloat (float_sub x (Finite (of_int b)))"
| "num_sub (PyFloat x) (PyFloat y) = PyFloat (float_sub x y)"

text \<open>
  \<^verbatim>\<open>a - b\<close>: defined between numbers; \<^verbatim>\<open>None\<close> and \<^verbatim>\<open>str\<close> support no subtraction, with
  any other operand, and raise \<^verbatim>\<open>TypeError\<close>.
\<close>

fun py_sub :: "pyval \<Rightarrow> pyval \<Rightarrow> pyerror + pynum" where
  "py_sub (PyNum a) (PyNum b) = Inr (num_sub a b)"
| "py_sub a b = Inl TypeError"

subsection \<open>The operator \<^verbatim>\<open><\<close> on numbers\<close>



subsection \<open>The builtin \<^verbatim>\<open>int()\<close>\<close>

text \<open>
  \<^verbatim>\<open>int(s)\<close> for a string: surrounding whitespace is dropped, one sign may come first,
  then decimal digits, where single underscores may stand between two digits. Anything
  else is a \<^verbatim>\<open>ValueError\<close>.
\<close>

definition is_space :: "char \<Rightarrow> bool" where
  "is_space c =
     (c \<in> set [CHR 0x09, CHR 0x0A, CHR 0x0B, CHR 0x0C, CHR 0x0D,
                CHR 0x1C, CHR 0x1D, CHR 0x1E, CHR 0x1F, CHR 0x20])"

definition strip :: "string \<Rightarrow> string" where
  "strip s = rev (dropWhile is_space (rev (dropWhile is_space s)))"

definition is_digit :: "char \<Rightarrow> bool" where
  "is_digit c = (c \<in> set ''0123456789'')"

definition digit_val :: "char \<Rightarrow> nat" where
  "digit_val c = of_char c - 48"

fun parse_digits :: "nat \<Rightarrow> string \<Rightarrow> nat option" where
  "parse_digits acc [] = Some acc"
| "parse_digits acc (c # cs) =
     (if is_digit c then parse_digits (acc * 10 + digit_val c) cs
      else if c = CHR ''_'' then
        (case cs of
           [] \<Rightarrow> None
         | d # ds \<Rightarrow> if is_digit d then parse_digits acc cs else None)
      else None)"

definition parse_nat :: "string \<Rightarrow> nat option" where
  "parse_nat s =
     (case s of
        [] \<Rightarrow> None
      | c # cs \<Rightarrow> if is_digit c then parse_digits 0 s else None)"

definition str_to_int :: "string \<Rightarrow> int option" where
  "str_to_int s =
     (case strip s of
        [] \<Rightarrow> None
      | c # cs \<Rightarrow>
          if c = CHR ''-'' then map_option (\<lambda>n. - int n) (parse_nat cs)
          else if c = CHR ''+'' then map_option int (parse_nat cs)
          else map_option int (parse_nat (c # cs)))"

text \<open>\<^verbatim>\<open>int(x)\<close> for a float truncates toward zero; an infinity or a NaN has no integer.\<close>

definition py_trunc :: "rat \<Rightarrow> int" where
  "py_trunc q = (if 0 \<le> q then \<lfloor>q\<rfloor> else \<lceil>q\<rceil>)"

fun py_int :: "pyval \<Rightarrow> pyerror + int" where
  "py_int PyNone = Inl TypeError"
| "py_int (PyNum (PyInt i)) = Inr i"
| "py_int (PyNum (PyFloat (Finite q))) = Inr (py_trunc q)"
| "py_int (PyNum (PyFloat NaN)) = Inl ValueError"
| "py_int (PyNum (PyFloat PInf)) = Inl OverflowError"
| "py_int (PyNum (PyFloat NInf)) = Inl OverflowError"
| "py_int (PyStr s) = (case str_to_int s of None \<Rightarrow> Inl ValueError | Some i \<Rightarrow> Inr i)"

subsection \<open>Dictionaries and \<^verbatim>\<open>str.startswith\<close>\<close>

text \<open>\<^verbatim>\<open>d[k]\<close> raises \<^verbatim>\<open>KeyError\<close> on a key that \<^verbatim>\<open>d\<close> does not hold.\<close>

definition getitem :: "(string \<rightharpoonup> pyval) \<Rightarrow> string \<Rightarrow> pyerror + pyval" where
  "getitem d k = (case d k of None \<Rightarrow> Inl (KeyError k) | Some v \<Rightarrow> Inr v)"

definition startswith :: "string \<Rightarrow> string \<Rightarrow> bool" where
  "startswith s p = (take (length p) s = p)"

section \<open>Quantities, measurements, configuration\<close>

text \<open>
  The units of \<^verbatim>\<open>astropy.units\<close> that the code uses, and a quantity as \<^verbatim>\<open>value * unit\<close>
  builds it.
\<close>

datatype astropy_unit = second | byte | kibibyte

datatype quantity = Quantity pynum astropy_unit

text \<open>A kibibyte is 1024 bytes; a second is no amount of memory.\<close>

fun unit_in_bytes :: "astropy_unit \<Rightarrow> int option" where
  "unit_in_bytes byte = Some 1"
| "unit_in_bytes kibibyte = Some 1024"
| "unit_in_bytes second = None"

fun in_bytes :: "quantity \<Rightarrow> int option" where
  "in_bytes (Quantity (PyInt n) un) = map_option (\<lambda>k. n * k) (unit_in_bytes un)"
| "in_bytes (Quantity (PyFloat x) un) = None"

record 'n measurement =
  metric_name :: 'n
  quantity :: quantity
  "notes" :: "string \<rightharpoonup> string"

text \<open>
  Modelled from the spec: \<^verbatim>\<open>lsst.verify.Measurement\<close> is imported by \<^verbatim>\<open>commonMetrics.py\<close>
  and is not among the sources. The spec has it pair a metric name with a physical
  quantity plus free-form annotation fields, created fresh per computation. The
  constructor may refuse the name it is given (the tests expect \<^verbatim>\<open>TypeError\<close> from a
  metric string that names no metric): \<open>refuse\<close> stands for that check.
\<close>

definition Measurement ::
  "('n \<Rightarrow> pyerror option) \<Rightarrow> 'n \<Rightarrow> quantity \<Rightarrow> pyerror + 'n measurement" where
  "Measurement refuse name q =
     (case refuse name of
        Some e \<Rightarrow> Inl e
      | None \<Rightarrow> Inr \<lparr>metric_name = name, quantity = q, notes = Map.empty\<rparr>)"

text \<open>\<^verbatim>\<open>TimeMethodMetricConfig\<close>, also exposed as \<^verbatim>\<open>TimingMetricConfig\<close> and \<^verbatim>\<open>MemoryMetricConfig\<close>.\<close>

record TimeMethodMetricConfig =
  target :: string
  metric :: string

text \<open>The logger of a task: each call appends a record of level, format and argument.\<close>

datatype log_level = DEBUG | INFO | WARNING | ERROR

type_synonym log_record = "log_level \<times> string \<times> string"

text \<open>What a method reads of \<^verbatim>\<open>self\<close>: the configuration and the logger.\<close>

record MetricTask =
  config :: TimeMethodMetricConfig
  task_log :: "log_record list"

definition log_info :: "MetricTask \<Rightarrow> string \<Rightarrow> string \<Rightarrow> MetricTask" where
  "log_info self fmt arg = self\<lparr>task_log := task_log self @ [(INFO, fmt, arg)]\<rparr>"

section \<open>TimingMetricTask\<close>


text \<open>
  \<^verbatim>\<open>Name\<close> is the constructor of \<^verbatim>\<open>lsst.verify.Name\<close>, which parses the metric string; it
  is not among the sources and is a parameter here.
\<close>

definition Timing_getOutputMetricName ::
  "(string \<Rightarrow> pyerror + 'n) \<Rightarrow> TimeMethodMetricConfig \<Rightarrow> pyerror + 'n" where
  "Timing_getOutputMetricName Name cfg = Name (metric cfg)"

text \<open>
  \<^verbatim>\<open>makeMeasurement\<close> returns the value or the exception, and \<^verbatim>\<open>self\<close> with its logger as
  the call leaves it. The \<^verbatim>\<open>try\<close> covers the subtraction only; \<^verbatim>\<open>except TypeError\<close> turns a
  \<^verbatim>\<open>TypeError\<close> of the subtraction into \<^verbatim>\<open>MetricComputationError\<close> and lets any other
  exception through; the \<^verbatim>\<open>else\<close> branch runs outside the handler. \<open>Timing_compute\<close> is
  the body of the \<^verbatim>\<open>if\<close>. Its condition is an \<^verbatim>\<open>or\<close>: \<^verbatim>\<open>timings["EndTime"]\<close> is read for
  the test only when \<^verbatim>\<open>timings["StartTime"]\<close> is \<^verbatim>\<open>None\<close>.
\<close>

definition Timing_compute ::
  "(string \<Rightarrow> pyerror + 'n) \<Rightarrow> ('n \<Rightarrow> pyerror option) \<Rightarrow> MetricTask \<Rightarrow>
     (string \<rightharpoonup> pyval) \<Rightarrow> pyerror + 'n measurement option" where
  "Timing_compute Name refuse self timings =
     (case getitem timings ''EndTime'' of
        Inl e \<Rightarrow> Inl e
      | Inr endTime \<Rightarrow>
     (case getitem timings ''StartTime'' of
        Inl e \<Rightarrow> Inl e
      | Inr startTime \<Rightarrow>
     (case py_sub endTime startTime of
        Inl TypeError \<Rightarrow> Inl (MetricComputationError ''Invalid metadata'')
      | Inl e \<Rightarrow> Inl e
      | Inr totalTime \<Rightarrow>
     (case Timing_getOutputMetricName Name (config self) of
        Inl e \<Rightarrow> Inl e
      | Inr name \<Rightarrow>
     (case Measurement refuse name (Quantity totalTime second) of
        Inl e \<Rightarrow> Inl e
      | Inr meas \<Rightarrow>
          Inr (Some (meas\<lparr>notes := (notes meas)(''estimator'' \<mapsto> ''pipe.base.timeMethod'')\<rparr>)))))))"

definition Timing_makeMeasurement ::
  "(string \<Rightarrow> pyerror + 'n) \<Rightarrow> ('n \<Rightarrow> pyerror option) \<Rightarrow> MetricTask \<Rightarrow>
     (string \<rightharpoonup> pyval) \<Rightarrow> (pyerror + 'n measurement option) \<times> MetricTask" where
  "Timing_makeMeasurement Name refuse self timings =
     (case getitem timings ''StartTime'' of
        Inl e \<Rightarrow> (Inl e, self)
      | Inr startTime \<Rightarrow>
          if startTime \<noteq> PyNone then (Timing_compute Name refuse self timings, self)
          else
            (case getitem timings ''EndTime'' of
               Inl e \<Rightarrow> (Inl e, self)
             | Inr endTime \<Rightarrow>
                 if endTime \<noteq> PyNone then (Timing_compute Name refuse self timings, self)
                 else
                   (Inr None,
                    log_info self ''Nothing to do: no timing information for %s found.''
                      (target (config self)))))"

section \<open>MemoryMetricTask\<close>

definition Memory_getInputMetadataKeys :: "TimeMethodMetricConfig \<Rightarrow> (string \<rightharpoonup> string)" where
  "Memory_getInputMetadataKeys cfg =
     (let keyBase = target cfg
      in [''EndMemory'' \<mapsto> keyBase @ ''EndMaxResidentSetSize''])"

definition Memory_getOutputMetricName ::
  "(string \<Rightarrow> pyerror + 'n) \<Rightarrow> TimeMethodMetricConfig \<Rightarrow> pyerror + 'n" where
  "Memory_getOutputMetricName Name cfg = Name (metric cfg)"

text \<open>
  \<^verbatim>\<open>_addUnits\<close> reads \<^verbatim>\<open>sys.platform\<close> and \<^verbatim>\<open>resource.getpagesize()\<close>; both are parameters.
\<close>

definition Memory_addUnits :: "string \<Rightarrow> int \<Rightarrow> int \<Rightarrow> quantity" where
  "Memory_addUnits platform pagesize memory =
     (if startswith platform ''darwin'' then Quantity (PyInt memory) byte
      else if startswith platform ''sunos'' \<or> startswith platform ''solaris''
        then Quantity (PyInt (memory * pagesize)) byte
      else Quantity (PyInt memory) kibibyte)"

text \<open>
  The handler of \<^verbatim>\<open>int()\<close> is \<^verbatim>\<open>except (ValueError, TypeError)\<close>: these two become
  \<^verbatim>\<open>MetricComputationError\<close>, any other exception passes. \<open>Memory_compute\<close> is the body
  of the \<^verbatim>\<open>if\<close>.
\<close>

definition Memory_compute ::
  "(string \<Rightarrow> pyerror + 'n) \<Rightarrow> ('n \<Rightarrow> pyerror option) \<Rightarrow> string \<Rightarrow> int \<Rightarrow> MetricTask \<Rightarrow>
     (string \<rightharpoonup> pyval) \<Rightarrow> pyerror + 'n measurement option" where
  "Memory_compute Name refuse platform pagesize self memory =
     (case getitem memory ''EndMemory'' of
        Inl e \<Rightarrow> Inl e
      | Inr endMemory \<Rightarrow>
     (case py_int endMemory of
        Inl ValueError \<Rightarrow> Inl (MetricComputationError ''Invalid metadata'')
      | Inl TypeError \<Rightarrow> Inl (MetricComputationError ''Invalid metadata'')
      | Inl e \<Rightarrow> Inl e
      | Inr maxMemory \<Rightarrow>
     (case Memory_getOutputMetricName Name (config self) of
        Inl e \<Rightarrow> Inl e
      | Inr name \<Rightarrow>
     (case Measurement refuse name (Memory_addUnits platform pagesize maxMemory) of
        Inl e \<Rightarrow> Inl e
      | Inr meas \<Rightarrow>
          Inr (Some (meas\<lparr>notes := (notes meas)(''estimator'' \<mapsto> ''pipe.base.timeMethod'')\<rparr>))))))"

definition Memory_makeMeasurement ::
  "(string \<Rightarrow> pyerror + 'n) \<Rightarrow> ('n \<Rightarrow> pyerror option) \<Rightarrow> string \<Rightarrow> int \<Rightarrow> MetricTask \<Rightarrow>
     (string \<rightharpoonup> pyval) \<Rightarrow> (pyerror + 'n measurement option) \<times> MetricTask" where
  "Memory_makeMeasurement Name refuse platform pagesize self memory =
     (case getitem memory ''EndMemory'' of
        Inl e \<Rightarrow> (Inl e, self)
      | Inr endMemory \<Rightarrow>
          if endMemory \<noteq> PyNone
          then (Memory_compute Name refuse platform pagesize self memory, self)
          else
            (Inr None,
             log_info self ''Nothing to do: no memory information for %s found.''
               (target (config self))))"

section \<open>A sample instance\<close>

text \<open>
  The tests configure the tasks with target \<^verbatim>\<open>NotARealTask.run\<close> and the metrics
  \<^verbatim>\<open>verify.DummyTime\<close> and \<^verbatim>\<open>verify.DummyMemory\<close>, and expect \<^verbatim>\<open>TypeError\<close> from the
  three-part string \<^verbatim>\<open>foo.bar.FooBarTime\<close>. The sample below stands for the two library
  parameters where a definition is run on concrete inputs: a name is the string itself,
  an empty string does not parse, and a measurement takes a name with exactly one dot.
\<close>

definition sample_Name :: "string \<Rightarrow> pyerror + string" where
  "sample_Name s = (if s = [] then Inl TypeError else Inr s)"

definition sample_refuse :: "string \<Rightarrow> pyerror option" where
  "sample_refuse n = (if length (filter (\<lambda>c. c = CHR ''.'') n) = 1 then None else Some TypeError)"

definition timing_task :: MetricTask where
  "timing_task =
     \<lparr>config = \<lparr>target = ''NotARealTask.run'', metric = ''verify.DummyTime''\<rparr>, task_log = []\<rparr>"

definition memory_task :: MetricTask where
  "memory_task =
     \<lparr>config = \<lparr>target = ''NotARealTask.run'', metric = ''verify.DummyMemory''\<rparr>, task_log = []\<rparr>"


section \<open>How the two methods branch\<close>

lemma py_sub_None: "py_sub PyNone v = Inl TypeError" "py_sub v PyNone = Inl TypeError"
  by (cases v; simp)+




lemma py_int_errors:
  "py_int v = Inl err \<Longrightarrow> err = TypeError \<or> err = ValueError \<or> err = OverflowError"
  by (induction v rule: py_int.induct) (auto split: option.splits)

lemma Timing_makeMeasurement_present:
  assumes "timings ''StartTime'' = Some st" "timings ''EndTime'' = Some en"
    and "st \<noteq> PyNone \<or> en \<noteq> PyNone"
  shows "Timing_makeMeasurement Name refuse self timings =
         (Timing_compute Name refuse self timings, self)"
  using assms by (auto simp: Timing_makeMeasurement_def getitem_def)

lemma Timing_compute_type_error:
  assumes "timings ''StartTime'' = Some st" "timings ''EndTime'' = Some en"
    and "py_sub en st = Inl TypeError"
  shows "Timing_compute Name refuse self timings =
         Inl (MetricComputationError ''Invalid metadata'')"
  using assms by (simp add: Timing_compute_def getitem_def)



lemma Memory_makeMeasurement_present:
  assumes "memory ''EndMemory'' = Some v" "v \<noteq> PyNone"
  shows "Memory_makeMeasurement Name refuse platform pagesize self memory =
         (Memory_compute Name refuse platform pagesize self memory, self)"
  using assms by (simp add: Memory_makeMeasurement_def getitem_def)


lemma Memory_compute_int:
  assumes "memory ''EndMemory'' = Some v" "py_int v = Inr i"
    and "Name (metric (config self)) = Inr n" "refuse n = None"
  shows "Memory_compute Name refuse platform pagesize self memory =
         Inr (Some \<lparr>metric_name = n, quantity = Memory_addUnits platform pagesize i,
                    notes = [''estimator'' \<mapsto> ''pipe.base.timeMethod'']\<rparr>)"
  using assms
  by (simp add: Memory_compute_def getitem_def Memory_getOutputMetricName_def Measurement_def)




lemma sample_memory_ok:
  "sample_Name (metric (config memory_task)) = Inr ''verify.DummyMemory''"
  "sample_refuse ''verify.DummyMemory'' = None"
  by (simp_all add: sample_Name_def sample_refuse_def memory_task_def)

lemma startswith_Cons:
  "startswith s (c # p) = (case s of [] \<Rightarrow> False | d # t \<Rightarrow> d = c \<and> startswith t p)"
  by (cases s) (simp_all add: startswith_def)

lemma not_darwin_and_sun:
  "startswith platform ''sunos'' \<or> startswith platform ''solaris'' \<Longrightarrow>
   \<not> startswith platform ''darwin''"
  by (cases platform) (auto simp: startswith_Cons)

lemma truncate_toward_zero:
  "\<bar>of_int (py_trunc q)\<bar> \<le> \<bar>q\<bar>"
  "\<bar>q\<bar> < \<bar>of_int (py_trunc q)\<bar> + 1"
  "0 \<le> of_int (py_trunc q) * q"
proof -
  show "\<bar>of_int (py_trunc q)\<bar> \<le> \<bar>q\<bar>"
  proof (cases "0 \<le> q")
    case True
    then show ?thesis by (simp add: py_trunc_def)
  next
    case False
    then have "q \<le> of_int \<lceil>q\<rceil>" "\<lceil>q\<rceil> \<le> 0"
      by (simp_all add: ceiling_le_zero)
    with False show ?thesis by (simp add: py_trunc_def)
  qed
  show "\<bar>q\<bar> < \<bar>of_int (py_trunc q)\<bar> + 1"
  proof (cases "0 \<le> q")
    case True
    then show ?thesis by (simp add: py_trunc_def) linarith
  next
    case False
    then have "\<lceil>q\<rceil> \<le> 0" "of_int \<lceil>q\<rceil> < q + 1"
      by (simp_all add: ceiling_le_zero) linarith
    with False show ?thesis by (simp add: py_trunc_def)
  qed
  show "0 \<le> of_int (py_trunc q) * q"
  proof (cases "0 \<le> q")
    case True
    then show ?thesis by (simp add: py_trunc_def)
  next
    case False
    then have "\<lceil>q\<rceil> \<le> 0" "q \<le> 0"
      by (simp_all add: ceiling_le_zero)
    then have "0 \<le> of_int \<lceil>q\<rceil> * q"
      by (intro mult_nonpos_nonpos) simp_all
    with False show ?thesis by (simp add: py_trunc_def)
  qed
qed

section \<open>The claims\<close>






text \<open>
  C3. When exactly one of the two timing values is \<^verbatim>\<open>None\<close>, whatever the other one is,
  \<^verbatim>\<open>TimingMetricTask.makeMeasurement\<close> raises \<^verbatim>\<open>MetricComputationError\<close>: neither a bare
  \<^verbatim>\<open>TypeError\<close> nor a \<^verbatim>\<open>None\<close> result.
\<close>

theorem TimingMetricTask_one_sided:
  assumes "timings ''StartTime'' = Some st" and "timings ''EndTime'' = Some en"
    and "(st = PyNone) \<noteq> (en = PyNone)"
  shows "Timing_makeMeasurement Name refuse self timings =
         (Inl (MetricComputationError ''Invalid metadata''), self)"
proof -
  from assms(3) have one: "st \<noteq> PyNone \<or> en \<noteq> PyNone" by blast
  from assms(3) have "py_sub en st = Inl TypeError"
    by (cases "st = PyNone") (auto simp: py_sub_None)
  with assms(1,2) one show ?thesis
    by (simp add: Timing_makeMeasurement_present Timing_compute_type_error)
qed

theorem TimingMetricTask_one_sided_witness:
  "Timing_makeMeasurement sample_Name sample_refuse timing_task
     [''StartTime'' \<mapsto> PyNone, ''EndTime'' \<mapsto> PyNum (PyFloat (Finite (7/2)))]
   = (Inl (MetricComputationError ''Invalid metadata''), timing_task)
   \<and> Timing_makeMeasurement sample_Name sample_refuse timing_task
     [''StartTime'' \<mapsto> PyNum (PyFloat (Finite (5/4))), ''EndTime'' \<mapsto> PyNone]
   = (Inl (MetricComputationError ''Invalid metadata''), timing_task)"
  using TimingMetricTask_one_sided [of
      "[''StartTime'' \<mapsto> PyNone, ''EndTime'' \<mapsto> PyNum (PyFloat (Finite (7/2)))]"
      PyNone "PyNum (PyFloat (Finite (7/2)))" sample_Name sample_refuse timing_task]
    TimingMetricTask_one_sided [of
      "[''StartTime'' \<mapsto> PyNum (PyFloat (Finite (5/4))), ''EndTime'' \<mapsto> PyNone]"
      "PyNum (PyFloat (Finite (5/4)))" PyNone sample_Name sample_refuse timing_task]
  by simp

text \<open>
  C4. \<^verbatim>\<open>MemoryMetricTask._addUnits\<close> gives \<open>v\<close> bytes on a platform whose name starts with
  \<^verbatim>\<open>darwin\<close>, \<open>v\<close> times the page size in bytes on one whose name starts with \<^verbatim>\<open>sunos\<close> or
  \<^verbatim>\<open>solaris\<close>, and \<open>v\<close> kibibytes on any other. The raw value 1024 is 1024 kibibytes, that
  is 1048576 bytes, on \<^verbatim>\<open>linux\<close> and 1024 bytes on \<^verbatim>\<open>darwin\<close>.
\<close>

theorem MemoryMetricTask_addUnits:
  "(startswith platform ''darwin'' \<longrightarrow>
      Memory_addUnits platform pagesize v = Quantity (PyInt v) byte)
   \<and> (startswith platform ''sunos'' \<or> startswith platform ''solaris'' \<longrightarrow>
      Memory_addUnits platform pagesize v = Quantity (PyInt (v * pagesize)) byte)
   \<and> (\<not> startswith platform ''darwin'' \<and> \<not> startswith platform ''sunos''
        \<and> \<not> startswith platform ''solaris'' \<longrightarrow>
      Memory_addUnits platform pagesize v = Quantity (PyInt v) kibibyte
      \<and> in_bytes (Memory_addUnits platform pagesize v) = Some (v * 1024))
   \<and> Memory_addUnits ''linux'' pagesize 1024 = Quantity (PyInt 1024) kibibyte
   \<and> in_bytes (Memory_addUnits ''linux'' pagesize 1024) = Some 1048576
   \<and> Memory_addUnits ''darwin'' pagesize 1024 = Quantity (PyInt 1024) byte
   \<and> in_bytes (Memory_addUnits ''darwin'' pagesize 1024) = Some 1024"
  using not_darwin_and_sun [of platform]
  by (auto simp: Memory_addUnits_def) (simp_all add: startswith_def)

theorem MemoryMetricTask_addUnits_witness:
  "Memory_addUnits ''darwin'' 4096 3 = Quantity (PyInt 3) byte
   \<and> Memory_addUnits ''sunos5'' 4096 3 = Quantity (PyInt 12288) byte
   \<and> Memory_addUnits ''linux'' 4096 3 = Quantity (PyInt 3) kibibyte
   \<and> in_bytes (Memory_addUnits ''linux'' 4096 3) = Some 3072"
  using MemoryMetricTask_addUnits [of "''darwin''" 4096 3]
    MemoryMetricTask_addUnits [of "''sunos5''" 4096 3]
    MemoryMetricTask_addUnits [of "''linux''" 4096 3]
  by (simp add: startswith_def)

text \<open>
  C5. When both timing values are \<^verbatim>\<open>None\<close>, \<^verbatim>\<open>TimingMetricTask.makeMeasurement\<close> returns
  \<^verbatim>\<open>None\<close>, raises nothing, and logs one record, at level INFO.
\<close>

theorem TimingMetricTask_absent:
  assumes "timings ''StartTime'' = Some PyNone" and "timings ''EndTime'' = Some PyNone"
  shows "Timing_makeMeasurement Name refuse self timings =
    (Inr None,
     self\<lparr>task_log := task_log self @
       [(INFO, ''Nothing to do: no timing information for %s found.'',
         target (config self))]\<rparr>)"
  using assms by (simp add: Timing_makeMeasurement_def getitem_def log_info_def)

theorem TimingMetricTask_absent_witness:
  "Timing_makeMeasurement sample_Name sample_refuse timing_task
     [''StartTime'' \<mapsto> PyNone, ''EndTime'' \<mapsto> PyNone]
   = (Inr None,
      timing_task\<lparr>task_log :=
        [(INFO, ''Nothing to do: no timing information for %s found.'',
          ''NotARealTask.run'')]\<rparr>)"
  using TimingMetricTask_absent [of
      "[''StartTime'' \<mapsto> PyNone, ''EndTime'' \<mapsto> PyNone]"
      sample_Name sample_refuse timing_task]
  by (simp add: timing_task_def)

text \<open>
  C6. A memory value that is present and has no integer should end in
  \<^verbatim>\<open>MetricComputationError\<close>. For an infinite float, \<^verbatim>\<open>int()\<close> raises \<^verbatim>\<open>OverflowError\<close>, which
  the handler \<^verbatim>\<open>except (ValueError, TypeError)\<close> does not name:
  \<^verbatim>\<open>MemoryMetricTask.makeMeasurement\<close> lets it through as it is.
\<close>

theorem MemoryMetricTask_infinity_escapes:
  "Memory_makeMeasurement Name refuse platform pagesize self
     [''EndMemory'' \<mapsto> PyNum (PyFloat PInf)] = (Inl OverflowError, self)"
  by (simp add: Memory_makeMeasurement_def Memory_compute_def getitem_def)

theorem MemoryMetricTask_infinity_escapes_witness:
  "Memory_makeMeasurement sample_Name sample_refuse ''linux'' 4096 memory_task
     [''EndMemory'' \<mapsto> PyNum (PyFloat PInf)] = (Inl OverflowError, memory_task)"
  using MemoryMetricTask_infinity_escapes [of sample_Name sample_refuse "''linux''" 4096 memory_task]
  by simp







text \<open>
  C10. \<^verbatim>\<open>MemoryMetricTask.makeMeasurement\<close> takes every memory value that \<^verbatim>\<open>int()\<close> takes,
  with a metric string that resolves: the measurement carries the units of the integer
  that \<^verbatim>\<open>int()\<close> returns. A finite float is truncated toward zero, the string \<^verbatim>\<open>"1024"\<close>
  is the integer 1024, and \<^verbatim>\<open>MetricComputationError\<close> comes only from a value that
  \<^verbatim>\<open>int()\<close> rejects.
\<close>

theorem MemoryMetricTask_int_conversion:
  assumes "memory ''EndMemory'' = Some v" and "v \<noteq> PyNone"
    and "Name (metric (config self)) = Inr n" and "refuse n = None"
  shows "(\<forall>i. py_int v = Inr i \<longrightarrow>
            Memory_makeMeasurement Name refuse platform pagesize self memory =
              (Inr (Some \<lparr>metric_name = n, quantity = Memory_addUnits platform pagesize i,
                          notes = [''estimator'' \<mapsto> ''pipe.base.timeMethod'']\<rparr>), self))
         \<and> (\<forall>msg. fst (Memory_makeMeasurement Name refuse platform pagesize self memory)
                  = Inl (MetricComputationError msg) \<longrightarrow> (\<exists>err. py_int v = Inl err))
         \<and> py_int (PyNum (PyFloat (Finite q))) = Inr (py_trunc q)
         \<and> \<bar>of_int (py_trunc q)\<bar> \<le> \<bar>q\<bar> \<and> \<bar>q\<bar> < \<bar>of_int (py_trunc q)\<bar> + 1
         \<and> 0 \<le> of_int (py_trunc q) * q
         \<and> py_int (PyStr ''1024'') = Inr 1024"
proof -
  have parsed: "py_int (PyStr ''1024'') = Inr 1024"
    by (simp add: str_to_int_def strip_def is_space_def parse_nat_def is_digit_def digit_val_def)
  have accepted: "Memory_makeMeasurement Name refuse platform pagesize self memory =
              (Inr (Some \<lparr>metric_name = n, quantity = Memory_addUnits platform pagesize i,
                          notes = [''estimator'' \<mapsto> ''pipe.base.timeMethod'']\<rparr>), self)"
    if "py_int v = Inr i" for i
    using assms that by (simp add: Memory_makeMeasurement_present Memory_compute_int)
  have rejected: "\<exists>err. py_int v = Inl err"
    if "fst (Memory_makeMeasurement Name refuse platform pagesize self memory)
                  = Inl (MetricComputationError msg)" for msg
  proof (cases "py_int v")
    case (Inl err)
    then show ?thesis by blast
  next
    case (Inr i)
    with that accepted [OF Inr] show ?thesis by simp
  qed
  from parsed accepted rejected truncate_toward_zero [of q] show ?thesis
    by simp
qed

theorem MemoryMetricTask_int_conversion_witness:
  "Memory_makeMeasurement sample_Name sample_refuse ''linux'' 4096 memory_task
     [''EndMemory'' \<mapsto> PyStr ''1024'']
   = (Inr (Some \<lparr>metric_name = ''verify.DummyMemory'',
                  quantity = Quantity (PyInt 1024) kibibyte,
                  notes = [''estimator'' \<mapsto> ''pipe.base.timeMethod'']\<rparr>), memory_task)
   \<and> py_int (PyNum (PyFloat (Finite (- 7/2)))) = Inr (- 3)"
proof -
  have parsed: "py_int (PyStr ''1024'') = Inr 1024"
    by (simp add: str_to_int_def strip_def is_space_def parse_nat_def is_digit_def digit_val_def)
  have units: "Memory_addUnits ''linux'' 4096 1024 = Quantity (PyInt 1024) kibibyte"
    by (simp add: Memory_addUnits_def startswith_def)
  have tr: "py_trunc (- 7/2) = - 3"
    by code_simp
  from MemoryMetricTask_int_conversion [of "[''EndMemory'' \<mapsto> PyStr ''1024'']" "PyStr ''1024''"
      sample_Name memory_task "''verify.DummyMemory''" sample_refuse "''linux''" 4096 "- 7/2"]
    parsed units tr
  show ?thesis
    by (simp add: sample_memory_ok)
qed

end
